theory Spec2Isabelle
  imports Complex_Main "HOL-Library.Product_Lexorder" "HOL-Library.Code_Target_Nat"
begin

section \<open>Text and the regular expressions of \<^verbatim>\<open>patterns.py\<close>\<close>


























subsection \<open>A backtracking matcher\<close>

text \<open>
  The patterns are kept as syntax trees. The matcher is the backtracking search of
  Python's \<^verbatim>\<open>re\<close>: alternatives left to right, repetitions greedy, the first complete
  match wins. It runs on the codes of the text. A state holds the codes matched so
  far, last first, the codes still ahead, and what capture group 1 has matched (no
  pattern of the tables has more than one group).
\<close>

datatype citem = Code nat | Codes nat nat | Digit | Space





datatype rx =
    Eps
  | Cls "citem list"
  | Seq rx rx
  | Alt rx rx
  | Rep rx nat "nat option"
  | Grp rx
  | WordB
  | Bol
  | Eol




















subsection \<open>Writing patterns\<close>




definition times :: "rx \<Rightarrow> nat \<Rightarrow> nat \<Rightarrow> rx" where "times r lo hi = Rep r lo (Some hi)"


section \<open>The tables of \<^verbatim>\<open>patterns.py\<close>\<close>

















section \<open>The field resolver (\<^verbatim>\<open>extractor.py\<close>)\<close>






subsection \<open>Passport number\<close>








subsection \<open>National ID\<close>







subsection \<open>Dates\<close>








subsection \<open>Name\<close>








subsection \<open>Sex, place of birth, nationality\<close>






subsection \<open>The whole extraction\<close>












section \<open>Faces (\<^verbatim>\<open>face_processor.py\<close>)\<close>

text \<open>
  The detection and embedding engine, the cascade detector, the distance-based
  comparator and the image operations are external: they are the fields of a record of
  functions, and a call that raises returns \<open>Inl\<close> of the exception. Images are values
  of a type \<open>'img\<close> of which nothing is assumed. Numbers that are floating point in the
  source are real numbers here.
\<close>

datatype exn = ValueError string | EngineError string

fun exn_message :: "exn \<Rightarrow> string" where
  \<comment> \<open>\<^verbatim>\<open>str(e)\<close>\<close>
  "exn_message (ValueError m) = m"
| "exn_message (EngineError m) = m"

type_synonym box = "int \<times> int \<times> int \<times> int"

text \<open>A face as the embedding engine reports it (the box already cast to integers).\<close>

record face =
  bbox :: box
  det_score :: real
  embedding :: "real list option"
  kps :: "real list list option"
  age :: "int option"
  gender :: "int option"

record 'img engines =
  face_app_get :: "'img \<Rightarrow> exn + face list"
  detectMultiScale :: "'img \<Rightarrow> exn + box list"
  face_encodings :: "'img \<Rightarrow> exn + real list list"
  face_locations :: "'img \<Rightarrow> exn + box list"
  image_shape :: "'img \<Rightarrow> exn + nat \<times> nat"
  crop :: "'img \<Rightarrow> int \<Rightarrow> int \<Rightarrow> int \<Rightarrow> int \<Rightarrow> 'img"
  enhance_face :: "'img \<Rightarrow> 'img"
  liveness_signals :: "'img \<Rightarrow> exn + real \<times> real \<times> real \<times> real"
  trunc_product :: "nat \<Rightarrow> real \<Rightarrow> int"

text \<open>
  \<open>image_shape\<close> is \<^verbatim>\<open>image.shape[:2]\<close>, height first; it raises on the null image that a
  failed decoding leaves. \<open>crop img y1 y2 x1 x2\<close> is the slice \<^verbatim>\<open>img[y1:y2, x1:x2]\<close>.
  \<open>enhance_face\<close> is \<^verbatim>\<open>_enhance_face\<close>, which catches its own failures and always returns an
  image. \<open>detectMultiScale\<close> stands for the grey conversion and the cascade detector with
  the configured parameters, its boxes being (x, y, w, h). \<open>liveness_signals\<close> gives the
  variance of the Laplacian, the mean and the standard deviation of the saturation
  channel and the mean of the Canny edge map of an image. \<open>trunc_product n x\<close> is
  \<^verbatim>\<open>int(n * x)\<close>: the product as binary floating point arithmetic rounds it, truncated
  to an integer (the product \<^verbatim>\<open>180 * 0.35\<close> is just below 63 and gives 62).
\<close>

record config =
  verification_threshold :: real
  extraction_padding :: int
  liveness_enabled :: bool
  liveness_min_score :: real

definition default_config :: config where
  "default_config =
     \<lparr>verification_threshold = 0.4, extraction_padding = 20,
      liveness_enabled = True, liveness_min_score = 0.7\<rparr>"

record face_metadata =
  md_bbox :: "int list"
  md_det_score :: real
  md_embedding :: "real list option"
  md_landmark :: "real list list option"
  md_age :: "int option"
  md_gender :: "int option"
  md_method :: "string option"

text \<open>\<^verbatim>\<open>max(xs, key=f)\<close> on a non-empty list: the first element with the greatest key.\<close>

fun max_from :: "('a \<Rightarrow> 'k::linorder) \<Rightarrow> 'a \<Rightarrow> 'a list \<Rightarrow> 'a" where
  "max_from f best [] = best"
| "max_from f best (x # xs) = max_from f (if f best < f x then x else best) xs"

subsection \<open>Face extraction\<close>

text \<open>The region of interest, as \<^verbatim>\<open>(x1, y1, x2, y2)\<close>.\<close>

definition roi_coords :: "'img engines \<Rightarrow> string \<Rightarrow> nat \<Rightarrow> nat \<Rightarrow> box" where
  "roi_coords eng document_type h w =
     (if document_type = ''passport''
      then (trunc_product eng w 0.05, trunc_product eng h 0.3,
            trunc_product eng w 0.35, trunc_product eng h 0.8)
      else (trunc_product eng w 0.05, trunc_product eng h 0.2,
            trunc_product eng w 0.45, trunc_product eng h 0.8))"

text \<open>The body of the \<^verbatim>\<open>try\<close> block: \<open>Inl\<close> is an exception on its way to the handler.\<close>

definition extract_face_body ::
  "'img engines \<Rightarrow> config \<Rightarrow> 'img \<Rightarrow> string \<Rightarrow> exn + ('img option \<times> face_metadata option)" where
  "extract_face_body eng cfg document_image document_type =
     (case image_shape eng document_image of
        Inl e \<Rightarrow> Inl e
      | Inr (h, w) \<Rightarrow>
          (case roi_coords eng document_type h w of (x1, y1, x2, y2) \<Rightarrow>
            (let roi = crop eng document_image y1 y2 x1 x2 in
             case face_app_get eng roi of
               Inl e \<Rightarrow> Inl e
             | Inr (f # fs) \<Rightarrow>
                 (let best_face = max_from det_score f fs;
                      padding = extraction_padding cfg
                  in case (bbox best_face, image_shape eng roi) of
                       (_, Inl e) \<Rightarrow> Inl e
                     | ((bx, by, bx2, by2), Inr (rh, rw)) \<Rightarrow>
                         (let x = max 0 (bx - padding);
                              y = max 0 (by - padding);
                              x2 = min (int rw) (bx2 + padding);
                              y2 = min (int rh) (by2 + padding);
                              face_img = crop eng roi y y2 x x2;
                              metadata =
                                \<lparr>md_bbox = [bx, by, bx2, by2],
                                 md_det_score = det_score best_face,
                                 md_embedding = embedding best_face,
                                 md_landmark = kps best_face,
                                 md_age = age best_face,
                                 md_gender = gender best_face,
                                 md_method = None\<rparr>
                          in Inr (Some (enhance_face eng face_img), Some metadata)))
             | Inr [] \<Rightarrow>
                 (case detectMultiScale eng roi of
                    Inl e \<Rightarrow> Inl e
                  | Inr (c # cs) \<Rightarrow>
                      (let padding = extraction_padding cfg
                       in case (max_from (\<lambda>(x, y, w, h). w * h) c cs, image_shape eng roi) of
                            (_, Inl e) \<Rightarrow> Inl e
                          | ((cx, cy, cw, chh), Inr (rh, rw)) \<Rightarrow>
                              (let x = max 0 (cx - padding);
                                   y = max 0 (cy - padding);
                                   w = min (int rw - x) (cw + 2 * padding);
                                   h = min (int rh - y) (chh + 2 * padding);
                                   face_img = crop eng roi y (y + h) x (x + w);
                                   metadata =
                                     \<lparr>md_bbox = [x, y, x + w, y + h],
                                      md_det_score = 0.8,
                                      md_embedding = None,
                                      md_landmark = None,
                                      md_age = None,
                                      md_gender = None,
                                      md_method = Some ''cascade''\<rparr>
                               in Inr (Some (enhance_face eng face_img), Some metadata)))
                  | Inr [] \<Rightarrow> Inr (None, None)))))"

definition extract_face_from_document ::
  "'img engines \<Rightarrow> config \<Rightarrow> 'img \<Rightarrow> string \<Rightarrow> 'img option \<times> face_metadata option" where
  "extract_face_from_document eng cfg document_image document_type =
     (case extract_face_body eng cfg document_image document_type of
        Inr result \<Rightarrow> result
      | Inl e \<Rightarrow> (None, None))"

subsection \<open>Face verification\<close>

text \<open>
  The confidence is a floating point number of the source: a real number here, or the
  NaN that the quotient of zero by zero is. NaN is neither greater than nor equal to
  any number, itself included.
\<close>

datatype pyfloat = Num real | NaN

fun float_ge :: "pyfloat \<Rightarrow> real \<Rightarrow> bool" where
  "float_ge (Num x) y = (y \<le> x)"
| "float_ge NaN y = False"


text \<open>
  A comparison of a numpy number yields a \<^verbatim>\<open>numpy.bool_\<close>, a constant of the source a
  Python \<^verbatim>\<open>bool\<close>. Both have a truth value; only the second can be written as JSON.
\<close>

datatype pybool = PyBool bool | NumpyBool bool



record face_verification_result =
  verified :: pybool
  confidence :: pyfloat
  face_locations_of :: "string \<rightharpoonup> int list"
  face_embeddings_of :: "string \<rightharpoonup> real list option"
  verification_method :: string
  error :: "string option"
  liveness_score :: "real option"

definition extract_embedding :: "'img engines \<Rightarrow> 'img \<Rightarrow> real list option" where
  "extract_embedding eng face_image =
     (case face_app_get eng face_image of
        Inr (f # fs) \<Rightarrow> embedding f
      | Inr [] \<Rightarrow> None
      | Inl e \<Rightarrow> None)"

definition dot :: "real list \<Rightarrow> real list \<Rightarrow> real" where
  "dot a b = sum_list (map (\<lambda>(x, y). x * y) (zip a b))"

definition norm2 :: "real list \<Rightarrow> real" where
  "norm2 a = sqrt (sum_list (map (\<lambda>x. x * x) a))"

text \<open>
  \<^verbatim>\<open>_cosine_similarity\<close>. \<^verbatim>\<open>np.dot\<close> raises on vectors of different lengths. There is no
  test for a zero norm: numpy divides, warns and returns NaN for the quotient of zero
  by zero (the dot product with a vector of norm zero is zero).
\<close>

definition cosine_similarity :: "real list \<Rightarrow> real list \<Rightarrow> exn + pyfloat" where
  "cosine_similarity embedding1 embedding2 =
     (if length embedding1 \<noteq> length embedding2
      then Inl (ValueError ''shapes not aligned'')
      else if norm2 embedding1 * norm2 embedding2 = 0
      then Inr NaN
      else Inr (Num (dot embedding1 embedding2 / (norm2 embedding1 * norm2 embedding2))))"

definition box_list :: "box \<Rightarrow> int list" where
  "box_list b = (case b of (a, b, c, d) \<Rightarrow> [a, b, c, d])"

text \<open>The \<^verbatim>\<open>try\<close> block of \<^verbatim>\<open>verify_faces\<close>: the comparison of the two embeddings.\<close>

definition verify_primary ::
  "'img engines \<Rightarrow> config \<Rightarrow> 'img \<Rightarrow> 'img \<Rightarrow> face_metadata option \<Rightarrow> exn + face_verification_result" where
  "verify_primary eng cfg id_face selfie_face id_metadata =
     (let id_embedding =
            (case id_metadata of
               Some md \<Rightarrow> (case md_embedding md of Some e \<Rightarrow> Some e | None \<Rightarrow> extract_embedding eng id_face)
             | None \<Rightarrow> extract_embedding eng id_face)
      in case face_app_get eng selfie_face of
           Inl e \<Rightarrow> Inl e
         | Inr selfie_faces \<Rightarrow>
             (case (id_embedding, selfie_faces) of
                (None, _) \<Rightarrow> Inl (ValueError ''Could not extract face embeddings'')
              | (_, []) \<Rightarrow> Inl (ValueError ''Could not extract face embeddings'')
              | (Some id_emb, sf # _) \<Rightarrow>
                  (case embedding sf of
                     None \<Rightarrow> Inl (EngineError ''unsupported operand'')
                   | Some selfie_embedding \<Rightarrow>
                       (case cosine_similarity id_emb selfie_embedding of
                          Inl e \<Rightarrow> Inl e
                        | Inr similarity \<Rightarrow>
                            Inr \<lparr>verified = NumpyBool (float_ge similarity (1 - verification_threshold cfg)),
                                 confidence = similarity,
                                 face_locations_of =
                                   [''id_face'' \<mapsto> (case id_metadata of Some md \<Rightarrow> md_bbox md | None \<Rightarrow> []),
                                    ''selfie_face'' \<mapsto> box_list (bbox sf)],
                                 face_embeddings_of =
                                   [''id_face'' \<mapsto> Some id_emb, ''selfie_face'' \<mapsto> Some selfie_embedding],
                                 verification_method = ''insightface'',
                                 error = None,
                                 liveness_score = None\<rparr>))))"

text \<open>
  \<^verbatim>\<open>face_recognition.face_distance\<close>: the Euclidean distance of each known encoding to the
  one compared.
\<close>

definition euclidean :: "real list \<Rightarrow> real list \<Rightarrow> real" where
  "euclidean a b = sqrt (sum_list (map (\<lambda>(x, y). (x - y) * (x - y)) (zip a b)))"

definition face_distance :: "real list list \<Rightarrow> real list \<Rightarrow> real list" where
  "face_distance encodings face_to_compare = map (\<lambda>e. euclidean e face_to_compare) encodings"

fun min_list_from :: "real \<Rightarrow> real list \<Rightarrow> real" where
  "min_list_from m [] = m"
| "min_list_from m (x # xs) = min_list_from (min m x) xs"

definition first_location :: "box list \<Rightarrow> int list" where
  "first_location locs = (case locs of [] \<Rightarrow> [] | l # _ \<Rightarrow> box_list l)"

definition verify_with_face_recognition ::
  "'img engines \<Rightarrow> config \<Rightarrow> 'img \<Rightarrow> 'img \<Rightarrow> exn + face_verification_result" where
  "verify_with_face_recognition eng cfg id_face selfie_face =
     (case face_encodings eng id_face of
        Inl e \<Rightarrow> Inl e
      | Inr id_encodings \<Rightarrow>
     (case face_encodings eng selfie_face of
        Inl e \<Rightarrow> Inl e
      | Inr selfie_encodings \<Rightarrow>
     (case (id_encodings, selfie_encodings) of
        ([], _) \<Rightarrow> Inl (ValueError ''Could not find face in one or both images'')
      | (_, []) \<Rightarrow> Inl (ValueError ''Could not find face in one or both images'')
      | (ie # ies, se # ses) \<Rightarrow>
          (case face_distance (ie # ies) se of
             [] \<Rightarrow> Inl (ValueError ''min() arg is an empty sequence'')
           | dst # dsts \<Rightarrow>
          (let min_distance = min_list_from dst dsts;
               conf = Num (1 - min_distance)
           in case face_locations eng id_face of
                Inl e \<Rightarrow> Inl e
              | Inr id_locations \<Rightarrow>
             (case face_locations eng selfie_face of
                Inl e \<Rightarrow> Inl e
              | Inr selfie_locations \<Rightarrow>
                  Inr \<lparr>verified = NumpyBool (float_ge conf (verification_threshold cfg)),
                       confidence = conf,
                       face_locations_of =
                         [''id_face'' \<mapsto> first_location id_locations,
                          ''selfie_face'' \<mapsto> first_location selfie_locations],
                       face_embeddings_of = [''id_face'' \<mapsto> Some ie, ''selfie_face'' \<mapsto> Some se],
                       verification_method = ''face_recognition'',
                       error = None,
                       liveness_score = None\<rparr>))))))"

definition failed_result :: "exn \<Rightarrow> face_verification_result" where
  "failed_result e2 =
     \<lparr>verified = PyBool False, confidence = Num 0, face_locations_of = Map.empty,
      face_embeddings_of = Map.empty, verification_method = ''failed'',
      error = Some (exn_message e2), liveness_score = None\<rparr>"

text \<open>
  \<^verbatim>\<open>verify_faces\<close> with its two handlers: the outer one runs the fallback, the inner one
  builds the failed result. The value is \<open>Inl\<close> for an exception that reaches the caller.
\<close>

definition verify_faces ::
  "'img engines \<Rightarrow> config \<Rightarrow> 'img \<Rightarrow> 'img \<Rightarrow> face_metadata option \<Rightarrow> exn + face_verification_result" where
  "verify_faces eng cfg id_face selfie_face id_metadata =
     (case verify_primary eng cfg id_face selfie_face id_metadata of
        Inr result \<Rightarrow> Inr result
      | Inl e \<Rightarrow>
          (case verify_with_face_recognition eng cfg id_face selfie_face of
             Inr result \<Rightarrow> Inr result
           | Inl e2 \<Rightarrow> Inr (failed_result e2)))"

subsection \<open>Liveness\<close>

definition liveness_weights :: "real list" where
  "liveness_weights = [0.25, 0.25, 0.3, 0.2]"

definition analyze_texture :: "real \<Rightarrow> real" where
  "analyze_texture edge_mean = min (edge_mean / 255 * 10) 1"

definition weighted_sum :: "real list \<Rightarrow> real list \<Rightarrow> real" where
  "weighted_sum scores weights = sum_list (map (\<lambda>(s, w). s * w) (zip scores (take (length scores) weights)))"

definition check_liveness :: "'img engines \<Rightarrow> 'img \<Rightarrow> exn + real" where
  "check_liveness eng face_image =
     (case liveness_signals eng face_image of
        Inl e \<Rightarrow> Inl e
      | Inr (laplacian_var, saturation_mean, saturation_std, edge_mean) \<Rightarrow>
          (let blur_score = min (laplacian_var / 1000) 1;
               color_score = min ((saturation_mean * saturation_std) / 5000) 1;
               texture_score = analyze_texture edge_mean;
               scores = [blur_score, color_score, texture_score]
           in case face_app_get eng face_image of
                Inl e \<Rightarrow> Inl e
              | Inr faces \<Rightarrow>
                  (let scores =
                         (case faces of
                            f # _ \<Rightarrow> if det_score f \<noteq> 0 then scores @ [det_score f] else scores
                          | [] \<Rightarrow> scores)
                   in Inr (weighted_sum scores liveness_weights))))"



section \<open>The two complete-verification endpoints (\<^verbatim>\<open>app.py\<close>)\<close>













text \<open>
  \<^verbatim>\<open>FaceProcessor.process_verification_request\<close>, the pipeline of the face module itself,
  from the extraction of the document face on: a liveness score below the minimum
  clears \<^verbatim>\<open>verified\<close>.
\<close>

definition process_verification_request ::
  "'img engines \<Rightarrow> config \<Rightarrow> 'img \<Rightarrow> 'img \<Rightarrow> string \<Rightarrow> string list + face_verification_result" where
  "process_verification_request eng cfg document_img selfie_img document_type =
     (case extract_face_from_document eng cfg document_img document_type of
        (None, id_metadata) \<Rightarrow> Inl [''Could not extract face from document'']
      | (Some id_face, id_metadata) \<Rightarrow>
          (case verify_faces eng cfg id_face selfie_img id_metadata of
             Inl e \<Rightarrow> Inl [exn_message e]
           | Inr verification \<Rightarrow>
               if liveness_enabled cfg
               then (case check_liveness eng selfie_img of
                       Inl e \<Rightarrow> Inl [exn_message e]
                     | Inr score \<Rightarrow>
                         Inr (verification\<lparr>liveness_score := Some score,
                                            verified := (if score < liveness_min_score cfg then PyBool False
                                                         else verified verification)\<rparr>))
               else Inr verification))"

section \<open>Sample inputs\<close>

text \<open>
  Engines over images numbered by natural numbers. With \<open>no_face_engines\<close> the embedding
  engine and the cascade detector find no face in any image, and the distance-based
  comparator finds one face in images 0 and 2, two in image 1 and none elsewhere; every
  liveness signal of an image is at or above the value that caps its score.
\<close>

definition no_face_engines :: "nat engines" where
  "no_face_engines =
     \<lparr>face_app_get = (\<lambda>img. Inr []),
      detectMultiScale = (\<lambda>img. Inr []),
      face_encodings =
        (\<lambda>img. if img = 0 then Inr [[0]] else if img = 1 then Inr [[1], [0]]
               else if img = 2 then Inr [[1]] else Inr []),
      face_locations = (\<lambda>img. Inr []),
      image_shape = (\<lambda>img. Inr (100, 200)),
      crop = (\<lambda>img y1 y2 x1 x2. img),
      enhance_face = (\<lambda>img. img),
      liveness_signals = (\<lambda>img. Inr (1000, 100, 50, 255)),
      trunc_product = (\<lambda>n x. \<lfloor>real n * x\<rfloor>)\<rparr>"

text \<open>
  With \<open>one_face_engines\<close> the embedding engine finds the same face in every image, and
  every liveness signal of an image is zero.
\<close>

definition sample_face :: face where
  "sample_face = \<lparr>bbox = (10, 10, 50, 50), det_score = 0.9, embedding = Some [1],
                   kps = None, age = None, gender = None\<rparr>"

definition one_face_engines :: "nat engines" where
  "one_face_engines =
     \<lparr>face_app_get = (\<lambda>img. Inr [sample_face]),
      detectMultiScale = (\<lambda>img. Inr []),
      face_encodings = (\<lambda>img. Inr []),
      face_locations = (\<lambda>img. Inr []),
      image_shape = (\<lambda>img. Inr (100, 200)),
      crop = (\<lambda>img y1 y2 x1 x2. img),
      enhance_face = (\<lambda>img. img),
      liveness_signals = (\<lambda>img. Inr (0, 0, 0, 0)),
      trunc_product = (\<lambda>n x. \<lfloor>real n * x\<rfloor>)\<rparr>"




section \<open>Properties\<close>




subsection \<open>Face verification\<close>

lemma verify_primary_method:
  "verify_primary eng cfg a b md = Inr r \<Longrightarrow> verification_method r = ''insightface''"
  by (auto simp: verify_primary_def Let_def split: sum.splits option.splits list.splits prod.splits)

lemma verify_fallback_method:
  "verify_with_face_recognition eng cfg a b = Inr r \<Longrightarrow> verification_method r = ''face_recognition''"
  by (auto simp: verify_with_face_recognition_def Let_def split: sum.splits option.splits list.splits prod.splits)

lemma verify_primary_no_embedding:
  "extract_embedding eng a = None \<Longrightarrow> \<exists>e. verify_primary eng cfg a b None = Inl e"
  by (auto simp: verify_primary_def Let_def split: sum.splits option.splits list.splits)

text \<open>
  Claim C4. For every pair of images and any behaviour of the engines, \<^verbatim>\<open>verify_faces\<close>
  returns a result and raises nothing. A result of the embedding comparison is
  returned as it is; when that comparison fails, and it does when no embedding of the
  document face is available, the result is the one of the distance-based fallback;
  and the method is \<^verbatim>\<open>failed\<close> exactly when both have failed, the result then being
  not verified, of confidence 0, with the message of the fallback's error.
\<close>

theorem verify_faces_never_raises:
  "\<exists>r. verify_faces eng cfg id_face selfie_face id_metadata = Inr r \<and>
       (verification_method r = ''failed'' \<longleftrightarrow>
          (\<exists>e e2. verify_primary eng cfg id_face selfie_face id_metadata = Inl e \<and>
                   verify_with_face_recognition eng cfg id_face selfie_face = Inl e2)) \<and>
       (\<forall>r'. verify_primary eng cfg id_face selfie_face id_metadata = Inr r' \<longrightarrow> r = r') \<and>
       (id_metadata = None \<and> extract_embedding eng id_face = None \<longrightarrow>
          (\<exists>e. verify_primary eng cfg id_face selfie_face id_metadata = Inl e)) \<and>
       (\<forall>e r'. verify_primary eng cfg id_face selfie_face id_metadata = Inl e \<and>
                verify_with_face_recognition eng cfg id_face selfie_face = Inr r' \<longrightarrow> r = r') \<and>
       (\<forall>e e2. verify_primary eng cfg id_face selfie_face id_metadata = Inl e \<and>
                verify_with_face_recognition eng cfg id_face selfie_face = Inl e2 \<longrightarrow>
                  verified r = PyBool False \<and> confidence r = Num 0 \<and>
                  verification_method r = ''failed'' \<and> error r = Some (exn_message e2))"
proof (cases "verify_primary eng cfg id_face selfie_face id_metadata")
  case (Inr r)
  then show ?thesis
    using verify_primary_method[OF Inr] verify_primary_no_embedding[of eng id_face cfg selfie_face]
    by (auto simp: verify_faces_def)
next
  case (Inl e)
  show ?thesis
  proof (cases "verify_with_face_recognition eng cfg id_face selfie_face")
    case (Inr r)
    then show ?thesis
      using Inl verify_fallback_method[OF Inr] by (auto simp: verify_faces_def)
  next
    case e2: (Inl e2)
    then show ?thesis
      using Inl by (auto simp: verify_faces_def failed_result_def)
  qed
qed

theorem verify_faces_never_raises_witness:
  "verify_primary no_face_engines default_config 3 4 None =
     Inl (ValueError ''Could not extract face embeddings'') \<and>
   verify_with_face_recognition no_face_engines default_config 3 4 =
     Inl (ValueError ''Could not find face in one or both images'') \<and>
   (\<exists>r. verify_faces no_face_engines default_config 3 4 None = Inr r \<and>
        verified r = PyBool False \<and> confidence r = Num 0 \<and> verification_method r = ''failed'' \<and>
        error r = Some ''Could not find face in one or both images'')"
proof -
  have p: "verify_primary no_face_engines default_config 3 4 None =
             Inl (ValueError ''Could not extract face embeddings'')"
    by (simp add: verify_primary_def extract_embedding_def no_face_engines_def)
  have f: "verify_with_face_recognition no_face_engines default_config 3 4 =
             Inl (ValueError ''Could not find face in one or both images'')"
    by (simp add: verify_with_face_recognition_def no_face_engines_def)
  from verify_faces_never_raises[of no_face_engines default_config 3 4 None] p f
  show ?thesis by auto
qed









lemma cosine_similarity_zero_norm: "cosine_similarity [0, 0] [1, 0] = Inr NaN"
  by (simp add: cosine_similarity_def norm2_def)




subsection \<open>Liveness\<close>

lemma check_liveness_four:
  assumes "liveness_signals eng img = Inr (lv, sm, ss, em)"
    and "face_app_get eng img = Inr (f # fs)" and "det_score f \<noteq> 0"
  shows "check_liveness eng img =
     Inr (0.25 * min (lv / 1000) 1 + 0.25 * min (sm * ss / 5000) 1 + 0.3 * min (em / 255 * 10) 1
          + 0.2 * det_score f)"
  using assms
  by (simp add: check_liveness_def analyze_texture_def weighted_sum_def liveness_weights_def)

lemma check_liveness_three:
  assumes "liveness_signals eng img = Inr (lv, sm, ss, em)"
    and "face_app_get eng img = Inr []"
  shows "check_liveness eng img =
     Inr (0.25 * min (lv / 1000) 1 + 0.25 * min (sm * ss / 5000) 1 + 0.3 * min (em / 255 * 10) 1)"
  using assms
  by (simp add: check_liveness_def analyze_texture_def weighted_sum_def liveness_weights_def)

text \<open>
  Claim C2, at an image in which the embedding engine detects no face and whose three
  other signals are all at their cap of 1: the score is the sum 0.25 + 0.25 + 0.3 of
  the first three weights, 0.8, where weights renormalized to a total of 1 give 1.
\<close>

theorem liveness_not_renormalized:
  "face_app_get no_face_engines 0 = Inr [] \<and>
   liveness_signals no_face_engines 0 = Inr (1000, 100, 50, 255) \<and>
   min (1000 / 1000) (1 :: real) = 1 \<and> min ((100 * 50) / 5000) (1 :: real) = 1 \<and>
   analyze_texture 255 = 1 \<and>
   check_liveness no_face_engines 0 = Inr 0.8"
  by (simp add: check_liveness_def no_face_engines_def analyze_texture_def weighted_sum_def
      liveness_weights_def)

subsection \<open>The endpoints\<close>





end
